theory Spec2Isabelle
  imports Main "HOL-Library.AList"
begin

section \<open>Values shared by the whole module\<close>

text \<open>
  \<^verbatim>\<open>support.py\<close> raises no exception of its own: every failure is the one raised by
  Python or by the libraries it calls (pandas, geopandas, plotly). The model keeps the
  Python names of these exceptions. The payload is the part of the message that does not
  depend on the library version: the labels that were not found, the text that was not
  a number, the path that was not there. \<open>DtypeNotModelled\<close> is no Python exception: it
  marks a conversion to a dtype this model does not describe.
\<close>

datatype error =
    KeyError "string list"
  | ValueError string
  | TypeError string
  | OverflowError string
  | NameError string
  | FileNotFoundError string
  | DtypeNotModelled string

subsection \<open>Formatting an integer inside an f-string\<close>

text \<open>
  \<^verbatim>\<open>f"{data_year}"\<close> with an \<^verbatim>\<open>int\<close> prints the decimal digits, with a leading minus
  sign for a negative number. Python's integers are unbounded, hence \<^typ>\<open>int\<close>.
\<close>

fun str_nat :: "nat \<Rightarrow> string" where
  "str_nat n = (if n < 10 then [''0123456789'' ! n]
                else str_nat (n div 10) @ [''0123456789'' ! (n mod 10)])"

declare str_nat.simps [simp del]

definition str_int :: "int \<Rightarrow> string" where
  "str_int i = (if i < 0 then CHR ''-'' # str_nat (nat (- i)) else str_nat (nat i))"

section \<open>Figures on disk: \<^verbatim>\<open>read_figure\<close> and \<^verbatim>\<open>save_figure\<close>\<close>


text \<open>
  \<^verbatim>\<open>save_figure\<close> ends in \<^verbatim>\<open>return None\<close> on every path: \<open>Inr fs'\<close> is that normal return,
  with the file system \<open>fs'\<close> the call leaves behind. The \<^verbatim>\<open>if\<close>/\<^verbatim>\<open>elif\<close> has no \<^verbatim>\<open>else\<close>.
\<close>

definition save_figure ::
  "('f \<Rightarrow> string \<Rightarrow> 's \<Rightarrow> error + 's) \<Rightarrow> ('f \<Rightarrow> string \<Rightarrow> 's \<Rightarrow> error + 's)
    \<Rightarrow> string \<Rightarrow> 'f \<Rightarrow> string \<Rightarrow> int \<Rightarrow> string \<Rightarrow> string \<Rightarrow> string \<Rightarrow> string
    \<Rightarrow> 's \<Rightarrow> error + 's" where
  "save_figure write_html write_json work_dir figure file_type
       data_year data_topic geo_area gda_spec gda_type fs =
     (let filename = data_topic @ ''_'' @ gda_type @ ''_'' @ str_int data_year @ ''_''
                       @ geo_area @ ''_'' @ gda_spec
      in if file_type = ''html''
           then write_html figure (work_dir @ ''/figure/'' @ filename @ ''.html'') fs
         else if file_type = ''json''
           then write_json figure (work_dir @ ''/figure/'' @ filename @ ''.json'') fs
         else Inr fs)"

subsection \<open>A file system to run the two functions on\<close>

text \<open>
  For closed examples the file system is an association list from paths to documents,
  and the plotly calls are the obvious ones: a writer stores a document of its kind under
  the path (replacing the one that was there), the JSON reader returns the figure of a
  JSON document, fails with \<^verbatim>\<open>FileNotFoundError\<close> where there is no file and with
  \<^verbatim>\<open>ValueError\<close> (a JSON decoding error) on an HTML page.
\<close>

datatype 'f document = JsonDoc 'f | HtmlDoc 'f

type_synonym 'f store = "(string \<times> 'f document) list"

definition store_write_json :: "'f \<Rightarrow> string \<Rightarrow> 'f store \<Rightarrow> error + 'f store" where
  "store_write_json figure path fs = Inr (AList.update path (JsonDoc figure) fs)"

definition store_write_html :: "'f \<Rightarrow> string \<Rightarrow> 'f store \<Rightarrow> error + 'f store" where
  "store_write_html figure path fs = Inr (AList.update path (HtmlDoc figure) fs)"


section \<open>Raw data from a local file: \<^verbatim>\<open>load_local_data\<close>\<close>


section \<open>\<^verbatim>\<open>load_pro\<close>\<close>

text \<open>
  The body of \<^verbatim>\<open>load_pro\<close> is the single statement \<^verbatim>\<open>return gdf\<close>. Python resolves a name
  in the local scope, then in the module's globals, then in the builtins. The local scope
  of \<^verbatim>\<open>load_pro\<close> holds its four parameters; the globals of \<^verbatim>\<open>support.py\<close> are the four
  imported names and the eight functions the module defines. No builtin is called
  \<^verbatim>\<open>gdf\<close>. A name found nowhere raises \<^verbatim>\<open>NameError\<close>.
\<close>

datatype pyval =
    PStr string
  | PBool bool
  | PDict "(string \<times> string) list"
  | PGlobal string

definition module_globals :: "(string \<times> pyval) list" where
  "module_globals = map (\<lambda>n. (n, PGlobal n))
     [''BlobServiceClient'', ''gpd'', ''go'', ''pio'',
      ''load_raw'', ''load_pro'', ''process_data'', ''create_figure'',
      ''read_figure'', ''save_figure'', ''load_local_data'', ''load_cloud_data'']"

definition load_pro ::
  "string \<Rightarrow> (string \<times> string) list \<Rightarrow> bool \<Rightarrow> bool \<Rightarrow> error + pyval" where
  "load_pro work_dir data_config cloud overwrite =
     (let locals = [(''work_dir'', PStr work_dir), (''data_config'', PDict data_config),
                    (''cloud'', PBool cloud), (''overwrite'', PBool overwrite)]
      in case map_of (locals @ module_globals) ''gdf'' of
           None \<Rightarrow> Inl (NameError ''gdf'')
         | Some v \<Rightarrow> Inr v)"

section \<open>Dataframes\<close>

text \<open>
  A cell holds a Python object: a string, an integer, a geometry or \<^verbatim>\<open>None\<close>. A geometry is
  opaque to this module; it is kept as its well-known text, which is what \<^verbatim>\<open>str\<close> gives
  for it. Floating-point cells are outside the model.

  A \<^verbatim>\<open>GeoDataFrame\<close> is column-major, as in pandas: the row labels (\<open>index\<close>) and the
  columns in order, each a label with one cell per row.
\<close>

datatype cell = VStr string | VInt int | VGeom string | VNone

record gdf =
  index :: "nat list"
  cols :: "(string \<times> cell list) list"

text \<open>
  What the type \<^verbatim>\<open>gpd.GeoDataFrame\<close> promises of the frame \<^verbatim>\<open>process_data\<close> receives:
  the labels are distinct, every column has one cell per row, and a column called
  \<^verbatim>\<open>geometry\<close> has the geometry dtype, so its cells are geometries or \<^verbatim>\<open>None\<close>.
\<close>

definition is_geometry :: "cell \<Rightarrow> bool" where
  "is_geometry v = (case v of VGeom g \<Rightarrow> True | VNone \<Rightarrow> True | _ \<Rightarrow> False)"

definition wf_gdf :: "gdf \<Rightarrow> bool" where
  "wf_gdf g \<longleftrightarrow>
     distinct (map fst (cols g))
     \<and> list_all (\<lambda>c. length (snd c) = length (index g)) (cols g)
     \<and> list_all (\<lambda>c. fst c = ''geometry'' \<longrightarrow> list_all is_geometry (snd c)) (cols g)"

text \<open>
  The \<^verbatim>\<open>gdf_column\<close> dictionary, with the three keys the configuration gives it.
\<close>

record column_spec =
  name :: string
  rename :: string
  type :: string

subsection \<open>The pandas and geopandas operations \<^verbatim>\<open>process_data\<close> calls\<close>

text \<open>
  \<^verbatim>\<open>gdf['geometry']\<close>: the column with that label, \<^verbatim>\<open>KeyError\<close> when there is none.
\<close>

definition getitem :: "gdf \<Rightarrow> string \<Rightarrow> error + cell list" where
  "getitem g key =
     (case map_of (cols g) key of None \<Rightarrow> Inl (KeyError [key]) | Some vs \<Rightarrow> Inr vs)"

text \<open>
  \<^verbatim>\<open>series != None\<close> on a geometry column: geopandas compares cell by cell with
  Python's \<^verbatim>\<open>!=\<close>, so the mask is false exactly at the cells that are \<^verbatim>\<open>None\<close>.
\<close>

definition ne_None :: "cell list \<Rightarrow> bool list" where
  "ne_None vs = map (\<lambda>v. v \<noteq> VNone) vs"

text \<open>
  \<^verbatim>\<open>gdf[mask]\<close>: the rows where the mask is true, in their order, under their old labels.
\<close>

definition take_mask :: "bool list \<Rightarrow> 'a list \<Rightarrow> 'a list" where
  "take_mask m xs = map snd (filter fst (zip m xs))"

definition getitem_mask :: "gdf \<Rightarrow> bool list \<Rightarrow> gdf" where
  "getitem_mask g m =
     \<lparr>index = take_mask m (index g), cols = map (\<lambda>c. (fst c, take_mask m (snd c))) (cols g)\<rparr>"

text \<open>\<^verbatim>\<open>gdf.reset_index(drop=True)\<close>: the row labels become 0, 1, ..., N-1.\<close>

definition reset_index :: "gdf \<Rightarrow> gdf" where
  "reset_index g = g\<lparr>index := [0..<length (index g)]\<rparr>"

text \<open>
  \<^verbatim>\<open>gdf[columns]\<close> with a list of labels: the columns with these labels, in the order of
  the list; \<^verbatim>\<open>KeyError\<close> with the labels that are not in the frame when there are any.
\<close>

definition getitem_list :: "gdf \<Rightarrow> string list \<Rightarrow> error + gdf" where
  "getitem_list g keys =
     (let missing = filter (\<lambda>k. k \<notin> set (map fst (cols g))) keys
      in if missing \<noteq> [] then Inl (KeyError (remdups missing))
         else Inr (g\<lparr>cols := concat (map (\<lambda>k. filter (\<lambda>c. fst c = k) (cols g)) keys)\<rparr>))"

text \<open>
  A dict comprehension \<^verbatim>\<open>{k: v for ...}\<close>: a key met again keeps its place and takes the
  new value, a new key goes to the end.
\<close>

definition dict_of :: "('k \<times> 'v) list \<Rightarrow> ('k \<times> 'v) list" where
  "dict_of kvs = fold (\<lambda>kv d. AList.update (fst kv) (snd kv) d) kvs []"

text \<open>\<^verbatim>\<open>gdf.rename(columns=d)\<close>: a label that is a key of \<open>d\<close> is replaced, the others stay.\<close>

definition rename_columns :: "gdf \<Rightarrow> (string \<times> string) list \<Rightarrow> gdf" where
  "rename_columns g d =
     g\<lparr>cols := map (\<lambda>c. (case map_of d (fst c) of None \<Rightarrow> fst c | Some l \<Rightarrow> l, snd c)) (cols g)\<rparr>"

subsection \<open>\<^verbatim>\<open>astype\<close>\<close>

text \<open>
  \<^verbatim>\<open>int(s)\<close> on a string, as numpy applies it to a cell of an object column: white space
  around the number is dropped, then comes an optional sign, then decimal digits, where
  single underscores may stand between two digits. Strings are ASCII here.
\<close>

definition is_space :: "char \<Rightarrow> bool" where
  "is_space c \<longleftrightarrow> c \<in> set [CHR 0x09, CHR 0x0A, CHR 0x0B, CHR 0x0C, CHR 0x0D,
                              CHR 0x1C, CHR 0x1D, CHR 0x1E, CHR 0x1F, CHR 0x20]"

definition strip :: "string \<Rightarrow> string" where
  "strip s = rev (dropWhile is_space (rev (dropWhile is_space s)))"

definition is_digit :: "char \<Rightarrow> bool" where
  "is_digit c \<longleftrightarrow> c \<in> set ''0123456789''"

definition digit_val :: "char \<Rightarrow> nat" where
  "digit_val c = length (takeWhile (\<lambda>d. d \<noteq> c) ''0123456789'')"

fun digits_value :: "nat \<Rightarrow> string \<Rightarrow> nat option" where
  "digits_value acc [] = Some acc"
| "digits_value acc (c # cs) =
     (if is_digit c then digits_value (acc * 10 + digit_val c) cs
      else if c = CHR ''_'' \<and> cs \<noteq> [] \<and> is_digit (hd cs) then digits_value acc cs
      else None)"

definition py_int :: "string \<Rightarrow> int option" where
  "py_int s =
     (let t = strip s;
          negative = (t \<noteq> [] \<and> hd t = CHR ''-'');
          body = (if t \<noteq> [] \<and> (hd t = CHR ''-'' \<or> hd t = CHR ''+'') then tl t else t)
      in if body = [] \<or> \<not> is_digit (hd body) then None
         else (case digits_value 0 body of
                 None \<Rightarrow> None
               | Some n \<Rightarrow> Some (if negative then - int n else int n)))"

text \<open>The dtype \<^verbatim>\<open>int\<close> is numpy's 64-bit integer.\<close>

definition int64_range :: "int \<Rightarrow> bool" where
  "int64_range i \<longleftrightarrow> - (2 ^ 63) \<le> i \<and> i < 2 ^ 63"

text \<open>
  \<^verbatim>\<open>str(v)\<close>, which is what \<^verbatim>\<open>astype('str')\<close> applies to each cell of an object column
  (pandas before version 3).
\<close>

definition py_str :: "cell \<Rightarrow> string" where
  "py_str v = (case v of VStr s \<Rightarrow> s | VInt i \<Rightarrow> str_int i | VGeom g \<Rightarrow> g | VNone \<Rightarrow> ''None'')"

text \<open>
  The conversion of one cell to a dtype. To \<^verbatim>\<open>str\<close> every object converts. To \<^verbatim>\<open>int\<close> a
  string converts when \<^verbatim>\<open>int(s)\<close> accepts it (\<^verbatim>\<open>ValueError\<close> otherwise) and the number fits
  64 bits (\<^verbatim>\<open>OverflowError\<close> otherwise); a geometry and \<^verbatim>\<open>None\<close> raise \<^verbatim>\<open>TypeError\<close>. To
  \<^verbatim>\<open>geometry\<close> a geometry and \<^verbatim>\<open>None\<close> convert to themselves, anything else raises
  \<^verbatim>\<open>TypeError\<close>. The payload of the error is the text of the offending cell.
\<close>

definition cast_cell :: "string \<Rightarrow> cell \<Rightarrow> error + cell" where
  "cast_cell ty v =
     (if ty = ''str'' then Inr (VStr (py_str v))
      else if ty = ''int'' then
        (case v of
           VInt i \<Rightarrow> if int64_range i then Inr (VInt i) else Inl (OverflowError (str_int i))
         | VStr s \<Rightarrow>
             (case py_int s of
                None \<Rightarrow> Inl (ValueError s)
              | Some i \<Rightarrow> if int64_range i then Inr (VInt i) else Inl (OverflowError s))
         | VGeom g \<Rightarrow> Inl (TypeError g)
         | VNone \<Rightarrow> Inl (TypeError ''None''))
      else if ty = ''geometry'' then
        (case v of
           VGeom g \<Rightarrow> Inr (VGeom g)
         | VNone \<Rightarrow> Inr VNone
         | _ \<Rightarrow> Inl (TypeError (py_str v)))
      else Inl (DtypeNotModelled ty))"

text \<open>A column is converted cell by cell from the top; the first failure is raised.\<close>

fun cast_all :: "string \<Rightarrow> cell list \<Rightarrow> error + cell list" where
  "cast_all ty [] = Inr []"
| "cast_all ty (v # vs) =
     (case cast_cell ty v of
        Inl e \<Rightarrow> Inl e
      | Inr v' \<Rightarrow> (case cast_all ty vs of Inl e \<Rightarrow> Inl e | Inr vs' \<Rightarrow> Inr (v' # vs')))"

text \<open>
  The model knows the dtypes \<^verbatim>\<open>str\<close>, \<^verbatim>\<open>int\<close> and \<^verbatim>\<open>geometry\<close>. For any other dtype name
  (\<^verbatim>\<open>float\<close> among them) the conversion of a column answers \<open>DtypeNotModelled\<close>, also for
  a column with no rows: the model says nothing about what pandas does there.
\<close>

definition cast_column :: "string \<Rightarrow> cell list \<Rightarrow> error + cell list" where
  "cast_column ty vs =
     (if ty \<in> set [''str'', ''int'', ''geometry''] then cast_all ty vs
      else Inl (DtypeNotModelled ty))"

text \<open>
  \<^verbatim>\<open>gdf.astype(d)\<close> with a dict from labels to dtypes: a key of \<open>d\<close> that is no label of
  the frame raises \<^verbatim>\<open>KeyError\<close> before anything is converted; then the columns are
  converted from left to right, each to the dtype \<open>d\<close> gives its label, and a column whose
  label is no key of \<open>d\<close> is kept as it is.
\<close>

fun cast_cols :: "(string \<times> string) list \<Rightarrow> (string \<times> cell list) list
    \<Rightarrow> error + (string \<times> cell list) list" where
  "cast_cols d [] = Inr []"
| "cast_cols d (c # cs) =
     (case (case map_of d (fst c) of None \<Rightarrow> Inr (snd c) | Some ty \<Rightarrow> cast_column ty (snd c)) of
        Inl e \<Rightarrow> Inl e
      | Inr vs' \<Rightarrow>
          (case cast_cols d cs of Inl e \<Rightarrow> Inl e | Inr cs' \<Rightarrow> Inr ((fst c, vs') # cs')))"

definition astype :: "gdf \<Rightarrow> (string \<times> string) list \<Rightarrow> error + gdf" where
  "astype g d =
     (case filter (\<lambda>k. k \<notin> set (map fst (cols g))) (map fst d) of
        k # ks \<Rightarrow> Inl (KeyError [k])
      | [] \<Rightarrow> (case cast_cols d (cols g) of Inl e \<Rightarrow> Inl e | Inr cs \<Rightarrow> Inr (g\<lparr>cols := cs\<rparr>)))"

section \<open>\<^verbatim>\<open>process_data\<close>\<close>

text \<open>
  The function statement by statement. Each \<^verbatim>\<open>gdf = ...\<close> of the source is one binding
  here (\<open>gdf1\<close> to \<open>gdf4\<close>); a statement that raises ends the call with that exception.
\<close>

definition process_data :: "gdf \<Rightarrow> column_spec \<Rightarrow> int \<Rightarrow> string \<Rightarrow> error + gdf" where
  "process_data g gdf_column data_year gda_type =
     (let gdf_columns =
            [\<lparr>name = gda_type @ ''_NAME_'' @ str_int data_year,
              rename = ''Location'', type = ''str''\<rparr>,
             gdf_column,
             \<lparr>name = ''geometry'', rename = ''geometry'', type = ''geometry''\<rparr>]
      in case getitem g ''geometry'' of
           Inl e \<Rightarrow> Inl e
         | Inr geometry \<Rightarrow>
             (let gdf1 = getitem_mask g (ne_None geometry);
                  gdf2 = reset_index gdf1;
                  columns = map name gdf_columns
              in case getitem_list gdf2 columns of
                   Inl e \<Rightarrow> Inl e
                 | Inr gdf3 \<Rightarrow>
                     (let column_names = dict_of (map (\<lambda>x. (name x, rename x)) gdf_columns);
                          gdf4 = rename_columns gdf3 column_names;
                          column_types = dict_of (map (\<lambda>x. (rename x, type x)) gdf_columns)
                      in astype gdf4 column_types)))"

subsection \<open>The frames of the scenarios\<close>

text \<open>
  Scenario A as the specification writes it: the boundary names are in a column called
  \<^verbatim>\<open>name\<close>. \<open>G1\<close> is some polygon.
\<close>

definition G1 :: string where
  "G1 = ''POLYGON ((153 -27, 154 -27, 154 -28, 153 -27))''"

definition scenario_A_literal :: gdf where
  "scenario_A_literal =
     \<lparr>index = [0, 1],
      cols = [(''name'', [VStr ''Brisbane'', VStr ''Cairns'']),
              (''pop'', [VStr ''2500000'', VStr ''150000'']),
              (''geometry'', [VGeom G1, VNone])]\<rparr>"

text \<open>
  The same rows in a frame whose boundary names are in the column \<^verbatim>\<open>SA4_NAME_2021\<close>,
  the label \<^verbatim>\<open>process_data\<close> computes from the boundary type and the year; then with
  \<^verbatim>\<open>N/A\<close> as the population of Brisbane (Scenario B), and with \<^verbatim>\<open>N/A\<close> as the population
  of Cairns, the row without a geometry.
\<close>

definition scenario_A :: gdf where
  "scenario_A =
     \<lparr>index = [0, 1],
      cols = [(''SA4_NAME_2021'', [VStr ''Brisbane'', VStr ''Cairns'']),
              (''pop'', [VStr ''2500000'', VStr ''150000'']),
              (''geometry'', [VGeom G1, VNone])]\<rparr>"



definition population :: column_spec where
  "population = \<lparr>name = ''pop'', rename = ''Population'', type = ''int''\<rparr>"

text \<open>
  A larger frame: four columns, row labels that do not start at 0, a row without a
  geometry in the middle and a population that is already an integer; below it the frame
  \<^verbatim>\<open>process_data\<close> makes of it, and a column specification for a column no frame here has.
\<close>

definition G2 :: string where
  "G2 = ''POLYGON ((146 -19, 147 -19, 147 -20, 146 -19))''"

definition example_frame :: gdf where
  "example_frame =
     \<lparr>index = [5, 6, 7],
      cols = [(''SA4_CODE_2021'', [VStr ''301'', VStr ''306'', VStr ''318'']),
              (''SA4_NAME_2021'', [VStr ''Brisbane'', VStr ''Cairns'', VStr ''Townsville'']),
              (''pop'', [VStr ''2500000'', VStr ''150000'', VInt 180000]),
              (''geometry'', [VGeom G1, VNone, VGeom G2])]\<rparr>"

definition example_normalized :: gdf where
  "example_normalized =
     \<lparr>index = [0, 1],
      cols = [(''Location'', [VStr ''Brisbane'', VStr ''Townsville'']),
              (''Population'', [VInt 2500000, VInt 180000]),
              (''geometry'', [VGeom G1, VGeom G2])]\<rparr>"

definition income :: column_spec where
  "income = \<lparr>name = ''income'', rename = ''Income'', type = ''int''\<rparr>"

subsection \<open>Notions the theorems are stated with\<close>

text \<open>
  The positions of the rows that survive the filter, in increasing order, and what it means
  for a cell to have a dtype.
\<close>

definition surviving :: "cell list \<Rightarrow> nat list" where
  "surviving G = filter (\<lambda>i. G ! i \<noteq> VNone) [0..<length G]"


section \<open>Lemmas on the dataframe operations\<close>

subsection \<open>Labels, lookups and dictionaries\<close>

lemma loc_ne_geometry: "t @ ''_NAME_'' @ s \<noteq> ''geometry''"
proof
  assume eq: "t @ ''_NAME_'' @ s = ''geometry''"
  have "CHR ''_'' \<in> set (t @ ''_NAME_'' @ s)" by simp
  with eq have "CHR ''_'' \<in> set ''geometry''" by simp
  then show False by simp
qed

lemma filter_label:
  "distinct (map fst cs) \<Longrightarrow> map_of cs k = Some vs \<Longrightarrow> filter (\<lambda>c. fst c = k) cs = [(k, vs)]"
proof (induction cs)
  case Nil
  then show ?case by simp
next
  case (Cons c cs)
  show ?case
  proof (cases "fst c = k")
    case True
    with Cons.prems have "snd c = vs" by (cases c) simp
    moreover from True Cons.prems have "k \<notin> fst ` set cs" by simp
    then have "filter (\<lambda>c. fst c = k) cs = []" by (auto simp: filter_empty_conv)
    ultimately show ?thesis using True by (cases c) simp
  next
    case False
    with Cons show ?thesis by (cases c) simp
  qed
qed

lemma map_of_mapped:
  "map_of (map (\<lambda>c. (fst c, f (snd c))) cs) k = map_option f (map_of cs k)"
  by (induction cs) auto

lemma map_of_in_labels: "map_of cs k = Some vs \<Longrightarrow> k \<in> set (map fst cs)"
  by (metis map_of_eq_None_iff option.distinct(1) set_map)

lemma getitem_list3:
  assumes "distinct (map fst (cols g))"
    and "map_of (cols g) a = Some A" and "map_of (cols g) b = Some B"
    and "map_of (cols g) c = Some C"
  shows "getitem_list g [a, b, c] = Inr (g\<lparr>cols := [(a, A), (b, B), (c, C)]\<rparr>)"
  using assms by (simp add: getitem_list_def filter_label map_of_in_labels [simplified])

lemma dict_of3:
  "a \<noteq> b \<Longrightarrow> a \<noteq> c \<Longrightarrow> b \<noteq> c \<Longrightarrow> dict_of [(a, x), (b, y), (c, z)] = [(a, x), (b, y), (c, z)]"
  by (simp add: dict_of_def)

lemma getitem_Inr: "getitem g k = Inr vs \<longleftrightarrow> map_of (cols g) k = Some vs"
  by (simp add: getitem_def split: option.splits)

lemma wf_distinct: "wf_gdf g \<Longrightarrow> distinct (map fst (cols g))"
  by (simp add: wf_gdf_def)

lemma wf_length: "wf_gdf g \<Longrightarrow> map_of (cols g) k = Some vs \<Longrightarrow> length vs = length (index g)"
  by (auto simp: wf_gdf_def list_all_iff dest!: map_of_SomeD)

lemma wf_geometry: "wf_gdf g \<Longrightarrow> map_of (cols g) ''geometry'' = Some G \<Longrightarrow> list_all is_geometry G"
  by (auto simp: wf_gdf_def list_all_iff dest!: map_of_SomeD)

subsection \<open>The row filter\<close>

lemma list_all_take_mask: "list_all P xs \<Longrightarrow> list_all P (take_mask m xs)"
  by (auto simp: take_mask_def list_all_iff dest: set_zip_rightD)

lemma length_take_mask: "length (take_mask m xs) \<le> length xs"
proof -
  have "length (filter fst (zip m xs)) \<le> length (zip m xs)"
    by (rule length_filter_le)
  also have "\<dots> \<le> length xs"
    by simp
  finally show ?thesis
    by (simp add: take_mask_def)
qed

lemma take_mask_Cons: "take_mask (b # m) (x # xs) = (if b then x # take_mask m xs else take_mask m xs)"
  by (simp add: take_mask_def)

lemma take_mask_positions:
  "length xs = length G \<Longrightarrow> take_mask (ne_None G) xs = map ((!) xs) (surviving G)"
proof (induction G arbitrary: xs)
  case Nil
  then show ?case by (simp add: take_mask_def surviving_def ne_None_def)
next
  case (Cons v G)
  then obtain x xs' where xs: "xs = x # xs'" and len: "length xs' = length G"
    by (cases xs) auto
  have shift: "filter (\<lambda>i. (v # G) ! i \<noteq> VNone) (map Suc [0..<length G])
      = map Suc (filter (\<lambda>i. G ! i \<noteq> VNone) [0..<length G])"
    by (simp add: filter_map comp_def)
  have upt: "[0..<length (v # G)] = 0 # map Suc [0..<length G]"
    by (simp add: upt_conv_Cons map_Suc_upt del: upt_Suc)
  have "surviving (v # G) = filter (\<lambda>i. (v # G) ! i \<noteq> VNone) (0 # map Suc [0..<length G])"
    by (simp only: surviving_def upt)
  also have "\<dots> = (if v \<noteq> VNone then [0] else [])
      @ filter (\<lambda>i. (v # G) ! i \<noteq> VNone) (map Suc [0..<length G])"
    by simp
  finally have "surviving (v # G) = (if v \<noteq> VNone then [0] else []) @ map Suc (surviving G)"
    unfolding shift by (simp only: surviving_def)
  moreover have "take_mask (ne_None G) xs' = map ((!) xs') (surviving G)"
    by (rule Cons.IH [OF len])
  ultimately show ?case
    by (simp add: xs ne_None_def take_mask_Cons comp_def)
qed

lemma take_mask_self: "take_mask (ne_None G) G = filter (\<lambda>v. v \<noteq> VNone) G"
  by (induction G) (simp_all add: take_mask_def ne_None_def)

subsection \<open>Conversions\<close>

lemma cast_cell_str: "cast_cell ''str'' v = Inr (VStr (py_str v))"
  by (simp add: cast_cell_def)

lemma cast_geometry_VGeom: "cast_cell ''geometry'' (VGeom g) = Inr (VGeom g)"
  by (simp add: cast_cell_def)


lemma cast_all_geometry: "list_all is_geometry vs \<Longrightarrow> cast_all ''geometry'' vs = Inr vs"
  by (induction vs) (auto simp: cast_cell_def is_geometry_def split: cell.splits)

lemma cast_all_Inr:
  "cast_all ty vs = Inr vs' \<Longrightarrow> map (cast_cell ty) vs = map Inr vs'"
  by (induction vs arbitrary: vs') (auto split: sum.splits)



lemma cast_column_Inr: "cast_column ty vs = Inr vs' \<Longrightarrow> cast_all ty vs = Inr vs'"
  by (simp add: cast_column_def split: if_splits)


lemma astype3:
  assumes "r \<noteq> ''Location''" and "r \<noteq> ''geometry''"
  shows "astype \<lparr>index = ix, cols = [(''Location'', L), (r, V), (''geometry'', G)]\<rparr>
           [(''Location'', ''str''), (r, ty), (''geometry'', ''geometry'')] =
         (case cast_column ''str'' L of
            Inl e \<Rightarrow> Inl e
          | Inr L' \<Rightarrow>
              (case cast_column ty V of
                 Inl e \<Rightarrow> Inl e
               | Inr V' \<Rightarrow>
                   (case cast_column ''geometry'' G of
                      Inl e \<Rightarrow> Inl e
                    | Inr G' \<Rightarrow>
                        Inr \<lparr>index = ix,
                             cols = [(''Location'', L'), (r, V'), (''geometry'', G')]\<rparr>)))"
  using assms by (simp add: astype_def split: sum.splits)

lemma py_int_2500000: "py_int ''2500000'' = Some 2500000"
  by (simp add: py_int_def strip_def is_space_def is_digit_def digit_val_def)


lemma cast_int_2500000: "cast_cell ''int'' (VStr ''2500000'') = Inr (VInt 2500000)"
  by (simp add: cast_cell_def py_int_2500000 int64_range_def)


lemma cast_int_180000: "cast_cell ''int'' (VInt 180000) = Inr (VInt 180000)"
  by (simp add: cast_cell_def int64_range_def)

lemma str_int_2021: "str_int 2021 = ''2021''"
  by code_simp

subsection \<open>The paths of \<^verbatim>\<open>process_data\<close>\<close>

text \<open>
  The call fails at \<^verbatim>\<open>gdf['geometry']\<close> when the frame has no such column, and at
  \<^verbatim>\<open>gdf[columns]\<close> when one of the three labels is missing. When the value column is the
  boundary-name column or the geometry column itself, two columns share a label after the
  renaming and \<^verbatim>\<open>astype\<close> fails on a key it does not find. Otherwise the result is the
  three conversions in a row.
\<close>

lemma process_data_no_geometry:
  "map_of (cols g) ''geometry'' = None \<Longrightarrow> process_data g c y t = Inl (KeyError [''geometry''])"
  by (simp add: process_data_def getitem_def)

lemma process_data_missing:
  assumes G: "map_of (cols g) ''geometry'' = Some G"
    and loc: "loc = t @ ''_NAME_'' @ str_int y"
    and miss: "filter (\<lambda>k. k \<notin> set (map fst (cols g))) [loc, name c, ''geometry''] \<noteq> []"
  shows "process_data g c y t =
         Inl (KeyError (remdups (filter (\<lambda>k. k \<notin> set (map fst (cols g)))
                                   [loc, name c, ''geometry''])))"
proof -
  have labels: "map fst (cols (reset_index (getitem_mask g (ne_None G)))) = map fst (cols g)"
    by (simp add: reset_index_def getitem_mask_def comp_def)
  have "getitem_list (reset_index (getitem_mask g (ne_None G))) [loc, name c, ''geometry''] =
        Inl (KeyError (remdups (filter (\<lambda>k. k \<notin> set (map fst (cols g)))
                                   [loc, name c, ''geometry''])))"
    unfolding getitem_list_def labels Let_def using miss by (rule if_P)
  then show ?thesis
    unfolding process_data_def loc [symmetric]
    by (simp add: getitem_def G Let_def)
qed

lemma process_data_name_is_loc:
  assumes wf: "distinct (map fst (cols g))"
    and loc: "loc = t @ ''_NAME_'' @ str_int y"
    and L: "map_of (cols g) loc = Some L"
    and G: "map_of (cols g) ''geometry'' = Some G"
    and n1: "name c = loc"
    and r1: "rename c \<noteq> ''Location''" and r2: "rename c \<noteq> ''geometry''"
  shows "process_data g c y t = Inl (KeyError [''Location''])"
proof -
  let ?m = "ne_None G"
  let ?g2 = "reset_index (getitem_mask g ?m)"
  have lg: "loc \<noteq> ''geometry''"
    unfolding loc by (rule loc_ne_geometry)
  have d2: "distinct (map fst (cols ?g2))"
    using wf by (simp add: reset_index_def getitem_mask_def comp_def)
  have m2: "map_of (cols ?g2) k = map_option (take_mask ?m) (map_of (cols g) k)" for k
    by (simp add: reset_index_def getitem_mask_def map_of_mapped)
  have g3: "getitem_list ?g2 [loc, loc, ''geometry''] =
      Inr (?g2\<lparr>cols := [(loc, take_mask ?m L), (loc, take_mask ?m L),
                         (''geometry'', take_mask ?m G)]\<rparr>)"
    by (rule getitem_list3 [OF d2]) (simp_all add: m2 L G)
  have names: "dict_of [(loc, ''Location''), (loc, rename c), (''geometry'', ''geometry'')]
      = [(loc, rename c), (''geometry'', ''geometry'')]"
    using lg by (simp add: dict_of_def)
  have types: "dict_of [(''Location'', ''str''), (rename c, type c), (''geometry'', ''geometry'')]
      = [(''Location'', ''str''), (rename c, type c), (''geometry'', ''geometry'')]"
    using r1 r2 by (intro dict_of3) auto
  show ?thesis
    unfolding process_data_def loc [symmetric]
    using r1 r2 lg
    by (simp add: getitem_def G n1 g3 names types Let_def rename_columns_def astype_def)
qed

lemma process_data_name_is_geometry:
  assumes wf: "distinct (map fst (cols g))"
    and loc: "loc = t @ ''_NAME_'' @ str_int y"
    and L: "map_of (cols g) loc = Some L"
    and G: "map_of (cols g) ''geometry'' = Some G"
    and n2: "name c = ''geometry''"
    and r1: "rename c \<noteq> ''Location''" and r2: "rename c \<noteq> ''geometry''"
  shows "process_data g c y t = Inl (KeyError [rename c])"
proof -
  let ?m = "ne_None G"
  let ?g2 = "reset_index (getitem_mask g ?m)"
  have lg: "loc \<noteq> ''geometry''"
    unfolding loc by (rule loc_ne_geometry)
  have d2: "distinct (map fst (cols ?g2))"
    using wf by (simp add: reset_index_def getitem_mask_def comp_def)
  have m2: "map_of (cols ?g2) k = map_option (take_mask ?m) (map_of (cols g) k)" for k
    by (simp add: reset_index_def getitem_mask_def map_of_mapped)
  have g3: "getitem_list ?g2 [loc, ''geometry'', ''geometry''] =
      Inr (?g2\<lparr>cols := [(loc, take_mask ?m L), (''geometry'', take_mask ?m G),
                         (''geometry'', take_mask ?m G)]\<rparr>)"
    by (rule getitem_list3 [OF d2]) (simp_all add: m2 L G)
  have names: "dict_of [(loc, ''Location''), (''geometry'', rename c), (''geometry'', ''geometry'')]
      = [(loc, ''Location''), (''geometry'', ''geometry'')]"
    using lg by (simp add: dict_of_def)
  have types: "dict_of [(''Location'', ''str''), (rename c, type c), (''geometry'', ''geometry'')]
      = [(''Location'', ''str''), (rename c, type c), (''geometry'', ''geometry'')]"
    using r1 r2 by (intro dict_of3) auto
  show ?thesis
    unfolding process_data_def loc [symmetric]
    using r1 r2 lg
    by (simp add: getitem_def G n2 g3 names types Let_def rename_columns_def astype_def)
qed

lemma process_data_normal:
  assumes wf: "distinct (map fst (cols g))"
    and loc: "loc = t @ ''_NAME_'' @ str_int y"
    and L: "map_of (cols g) loc = Some L"
    and V: "map_of (cols g) (name c) = Some V"
    and G: "map_of (cols g) ''geometry'' = Some G"
    and n1: "name c \<noteq> loc" and n2: "name c \<noteq> ''geometry''"
    and r1: "rename c \<noteq> ''Location''" and r2: "rename c \<noteq> ''geometry''"
  shows "process_data g c y t =
         (case cast_column ''str'' (take_mask (ne_None G) L) of
            Inl e \<Rightarrow> Inl e
          | Inr L' \<Rightarrow>
              (case cast_column (type c) (take_mask (ne_None G) V) of
                 Inl e \<Rightarrow> Inl e
               | Inr V' \<Rightarrow>
                   (case cast_column ''geometry'' (take_mask (ne_None G) G) of
                      Inl e \<Rightarrow> Inl e
                    | Inr G' \<Rightarrow>
                        Inr \<lparr>index = [0..<length (take_mask (ne_None G) (index g))],
                             cols = [(''Location'', L'), (rename c, V'), (''geometry'', G')]\<rparr>)))"
proof -
  let ?m = "ne_None G"
  let ?g2 = "reset_index (getitem_mask g ?m)"
  have lg: "loc \<noteq> ''geometry''"
    unfolding loc by (rule loc_ne_geometry)
  have d2: "distinct (map fst (cols ?g2))"
    using wf by (simp add: reset_index_def getitem_mask_def comp_def)
  have m2: "map_of (cols ?g2) k = map_option (take_mask ?m) (map_of (cols g) k)" for k
    by (simp add: reset_index_def getitem_mask_def map_of_mapped)
  have g3: "getitem_list ?g2 [loc, name c, ''geometry''] =
      Inr (?g2\<lparr>cols := [(loc, take_mask ?m L), (name c, take_mask ?m V),
                         (''geometry'', take_mask ?m G)]\<rparr>)"
    by (rule getitem_list3 [OF d2]) (simp_all add: m2 L V G)
  have names: "dict_of [(loc, ''Location''), (name c, rename c), (''geometry'', ''geometry'')]
      = [(loc, ''Location''), (name c, rename c), (''geometry'', ''geometry'')]"
    using n1 n2 lg by (intro dict_of3) auto
  have types: "dict_of [(''Location'', ''str''), (rename c, type c), (''geometry'', ''geometry'')]
      = [(''Location'', ''str''), (rename c, type c), (''geometry'', ''geometry'')]"
    using r1 r2 by (intro dict_of3) auto
  have g4: "rename_columns (?g2\<lparr>cols := [(loc, take_mask ?m L), (name c, take_mask ?m V),
                         (''geometry'', take_mask ?m G)]\<rparr>)
              [(loc, ''Location''), (name c, rename c), (''geometry'', ''geometry'')]
      = \<lparr>index = [0..<length (take_mask ?m (index g))],
         cols = [(''Location'', take_mask ?m L), (rename c, take_mask ?m V),
                 (''geometry'', take_mask ?m G)]\<rparr>"
    using n1 n2 lg
    by (simp add: rename_columns_def reset_index_def getitem_mask_def)
  show ?thesis
    unfolding process_data_def loc [symmetric]
    using r1 r2
    by (simp add: getitem_def G g3 names types g4 astype3 Let_def)
qed

lemma process_data_Inr_cases:
  assumes wf: "wf_gdf g" and ok: "process_data g c y t = Inr out"
    and r1: "rename c \<noteq> ''Location''" and r2: "rename c \<noteq> ''geometry''"
  obtains L V G L' V' where
    "map_of (cols g) (t @ ''_NAME_'' @ str_int y) = Some L"
    "map_of (cols g) (name c) = Some V"
    "map_of (cols g) ''geometry'' = Some G"
    "cast_all ''str'' (take_mask (ne_None G) L) = Inr L'"
    "cast_all (type c) (take_mask (ne_None G) V) = Inr V'"
    "out = \<lparr>index = [0..<length (take_mask (ne_None G) (index g))],
            cols = [(''Location'', L'), (rename c, V'),
                    (''geometry'', take_mask (ne_None G) G)]\<rparr>"
proof -
  define loc where "loc = t @ ''_NAME_'' @ str_int y"
  have d: "distinct (map fst (cols g))"
    using wf by (rule wf_distinct)
  obtain G where G: "map_of (cols g) ''geometry'' = Some G"
    using ok process_data_no_geometry [of g c y t] by (cases "map_of (cols g) ''geometry''") auto
  have nomiss: "filter (\<lambda>k. k \<notin> set (map fst (cols g))) [loc, name c, ''geometry''] = []"
    using ok process_data_missing [OF G loc_def, of c] by fastforce
  then have "loc \<in> set (map fst (cols g))" and "name c \<in> set (map fst (cols g))"
    by (auto split: if_splits)
  then obtain L V where L: "map_of (cols g) loc = Some L" and V: "map_of (cols g) (name c) = Some V"
    by (metis map_of_eq_None_iff not_Some_eq set_map)
  have n1: "name c \<noteq> loc"
    using ok process_data_name_is_loc [OF d loc_def L G _ r1 r2] by fastforce
  have n2: "name c \<noteq> ''geometry''"
    using ok process_data_name_is_geometry [OF d loc_def L G _ r1 r2] by fastforce
  have geo: "cast_column ''geometry'' (take_mask (ne_None G) G) = Inr (take_mask (ne_None G) G)"
    using wf_geometry [OF wf G]
    by (simp add: cast_column_def cast_all_geometry list_all_take_mask)
  note nf = process_data_normal [OF d loc_def L V G n1 n2 r1 r2]
  from ok obtain L' V' where
    L': "cast_column ''str'' (take_mask (ne_None G) L) = Inr L'" and
    V': "cast_column (type c) (take_mask (ne_None G) V) = Inr V'" and
    out: "out = \<lparr>index = [0..<length (take_mask (ne_None G) (index g))],
            cols = [(''Location'', L'), (rename c, V'),
                    (''geometry'', take_mask (ne_None G) G)]\<rparr>"
    unfolding nf geo by (auto split: sum.splits)
  show thesis
    using L V G cast_column_Inr [OF L'] cast_column_Inr [OF V'] out
    unfolding loc_def by (rule that)
qed

subsection \<open>The example frames\<close>

lemma wf_example_frame: "wf_gdf example_frame"
  by (simp add: wf_gdf_def example_frame_def is_geometry_def)

lemma wf_scenario_A: "wf_gdf scenario_A"
  by (simp add: wf_gdf_def scenario_A_def is_geometry_def)


lemma example_frame_result:
  "process_data example_frame population 2021 ''SA4'' = Inr example_normalized"
proof -
  have "process_data example_frame population 2021 ''SA4'' =
         (case cast_column ''str'' (take_mask (ne_None [VGeom G1, VNone, VGeom G2])
                 [VStr ''Brisbane'', VStr ''Cairns'', VStr ''Townsville'']) of
            Inl e \<Rightarrow> Inl e
          | Inr L' \<Rightarrow>
              (case cast_column (type population) (take_mask (ne_None [VGeom G1, VNone, VGeom G2])
                      [VStr ''2500000'', VStr ''150000'', VInt 180000]) of
                 Inl e \<Rightarrow> Inl e
               | Inr V' \<Rightarrow>
                   (case cast_column ''geometry'' (take_mask (ne_None [VGeom G1, VNone, VGeom G2])
                           [VGeom G1, VNone, VGeom G2]) of
                      Inl e \<Rightarrow> Inl e
                    | Inr G' \<Rightarrow>
                        Inr \<lparr>index = [0..<length (take_mask (ne_None [VGeom G1, VNone, VGeom G2])
                                                 (index example_frame))],
                             cols = [(''Location'', L'), (rename population, V'),
                                     (''geometry'', G')]\<rparr>)))"
    by (rule process_data_normal [where loc = "''SA4_NAME_2021''"])
       (simp_all add: example_frame_def population_def str_int_2021)
  then show ?thesis
    by (simp add: example_frame_def example_normalized_def population_def take_mask_def
          ne_None_def cast_column_def cast_int_2500000 cast_int_180000 cast_cell_str
          cast_geometry_VGeom py_str_def upt_rec)
qed


section \<open>The normalisation: \<^verbatim>\<open>process_data\<close>\<close>

text \<open>
  The specification calls \<^verbatim>\<open>process_data\<close> \<^emph>\<open>normalize\<close>, its \<^verbatim>\<open>KeyError\<close> for a label that
  is not in the frame \<^emph>\<open>SchemaError\<close>, and the exception of a failed conversion
  \<^emph>\<open>TypeCoercionError\<close>.

  Claim C1. Let \<^verbatim>\<open>process_data\<close> return a frame for a well-formed input, the target name of
  the value column being neither \<^verbatim>\<open>Location\<close> nor \<^verbatim>\<open>geometry\<close>. Then the input has the three
  source columns, and with \<open>surviving G\<close> the increasing list of the positions whose geometry
  is not \<^verbatim>\<open>None\<close>: there are at most as many of them as input rows; the row labels of the
  output are 0, ..., N-1 for their number N; the k-th output row is made of the source row
  at the k-th surviving position (its geometry as it was, its boundary name and its value
  converted); and no column called \<^verbatim>\<open>geometry\<close> of the output holds \<^verbatim>\<open>None\<close>.
\<close>

theorem process_data_geometry_filter:
  assumes wf: "wf_gdf g" and ok: "process_data g c y t = Inr out"
    and r1: "rename c \<noteq> ''Location''" and r2: "rename c \<noteq> ''geometry''"
  shows "\<exists>L V G L' V'.
       getitem g (t @ ''_NAME_'' @ str_int y) = Inr L
     \<and> getitem g (name c) = Inr V
     \<and> getitem g ''geometry'' = Inr G
     \<and> length (surviving G) \<le> length (index g)
     \<and> index out = [0..<length (surviving G)]
     \<and> cols out = [(''Location'', L'), (rename c, V'),
                    (''geometry'', map ((!) G) (surviving G))]
     \<and> (\<forall>col \<in> set (cols out). fst col = ''geometry'' \<longrightarrow> VNone \<notin> set (snd col))
     \<and> map Inr L' = map (\<lambda>i. cast_cell ''str'' (L ! i)) (surviving G)
     \<and> map Inr V' = map (\<lambda>i. cast_cell (type c) (V ! i)) (surviving G)"
proof -
  from wf ok r1 r2 obtain L V G L' V' where
    L: "map_of (cols g) (t @ ''_NAME_'' @ str_int y) = Some L" and
    V: "map_of (cols g) (name c) = Some V" and
    G: "map_of (cols g) ''geometry'' = Some G" and
    L': "cast_all ''str'' (take_mask (ne_None G) L) = Inr L'" and
    V': "cast_all (type c) (take_mask (ne_None G) V) = Inr V'" and
    out: "out = \<lparr>index = [0..<length (take_mask (ne_None G) (index g))],
            cols = [(''Location'', L'), (rename c, V'),
                    (''geometry'', take_mask (ne_None G) G)]\<rparr>"
    by (rule process_data_Inr_cases)
  have lenG: "length G = length (index g)" and lenL: "length L = length G"
    and lenV: "length V = length G"
    using wf_length [OF wf G] wf_length [OF wf L] wf_length [OF wf V] by simp_all
  have pI: "take_mask (ne_None G) (index g) = map ((!) (index g)) (surviving G)"
    by (rule take_mask_positions) (simp add: lenG)
  have pL: "take_mask (ne_None G) L = map ((!) L) (surviving G)"
    by (rule take_mask_positions [OF lenL])
  have pV: "take_mask (ne_None G) V = map ((!) V) (surviving G)"
    by (rule take_mask_positions [OF lenV])
  have pG: "take_mask (ne_None G) G = map ((!) G) (surviving G)"
    by (rule take_mask_positions [OF refl])
  have none: "VNone \<notin> set (take_mask (ne_None G) G)"
    by (simp add: take_mask_self)
  have len: "length (surviving G) \<le> length (index g)"
    using length_take_mask [of "ne_None G" "index g"] by (simp add: pI)
  have cL: "map Inr L' = map (\<lambda>i. cast_cell ''str'' (L ! i)) (surviving G)"
    using cast_all_Inr [OF L'] by (simp add: pL comp_def)
  have cV: "map Inr V' = map (\<lambda>i. cast_cell (type c) (V ! i)) (surviving G)"
    using cast_all_Inr [OF V'] by (simp add: pV comp_def)
  have ix: "index out = [0..<length (surviving G)]"
    by (simp add: out pI)
  have co: "cols out = [(''Location'', L'), (rename c, V'),
                    (''geometry'', map ((!) G) (surviving G))]"
    by (simp add: out pG)
  have nn: "\<forall>col \<in> set (cols out). fst col = ''geometry'' \<longrightarrow> VNone \<notin> set (snd col)"
    using none r2 unfolding co pG by simp
  show ?thesis
    using L V G len ix co nn cL cV unfolding getitem_Inr [symmetric] by blast
qed

text \<open>
  The theorem at the frame with three rows, the second without a geometry, and the row
  labels 5, 6, 7: the output has the two rows 0 and 1, Brisbane and Townsville.
\<close>

theorem process_data_geometry_filter_witness:
  "wf_gdf example_frame
   \<and> process_data example_frame population 2021 ''SA4'' = Inr example_normalized
   \<and> rename population \<noteq> ''Location''
   \<and> rename population \<noteq> ''geometry''
   \<and> (\<exists>L V G L' V'.
       getitem example_frame (''SA4'' @ ''_NAME_'' @ str_int 2021) = Inr L
     \<and> getitem example_frame (name population) = Inr V
     \<and> getitem example_frame ''geometry'' = Inr G
     \<and> length (surviving G) \<le> length (index example_frame)
     \<and> index example_normalized = [0..<length (surviving G)]
     \<and> cols example_normalized = [(''Location'', L'), (rename population, V'),
                    (''geometry'', map ((!) G) (surviving G))]
     \<and> (\<forall>col \<in> set (cols example_normalized). fst col = ''geometry'' \<longrightarrow> VNone \<notin> set (snd col))
     \<and> map Inr L' = map (\<lambda>i. cast_cell ''str'' (L ! i)) (surviving G)
     \<and> map Inr V' = map (\<lambda>i. cast_cell (type population) (V ! i)) (surviving G))"
proof -
  have h3: "rename population \<noteq> ''Location''" and h4: "rename population \<noteq> ''geometry''"
    by (simp_all add: population_def)
  note c = process_data_geometry_filter [OF wf_example_frame example_frame_result h3 h4]
  show ?thesis
    by (intro conjI wf_example_frame example_frame_result h3 h4 c)
qed



text \<open>
  Claim C3, as the specification writes Scenario A: the boundary names are in a column
  called \<^verbatim>\<open>name\<close>. \<^verbatim>\<open>process_data\<close> looks for the column \<^verbatim>\<open>SA4_NAME_2021\<close>, which it
  computes from the boundary type SA4 and the year 2021, and the call ends in \<^verbatim>\<open>KeyError\<close>:
  no table is returned.
\<close>

theorem scenario_A_literal_counterexample:
  "process_data scenario_A_literal population 2021 ''SA4'' = Inl (KeyError [''SA4_NAME_2021''])"
proof -
  have "process_data scenario_A_literal population 2021 ''SA4'' =
      Inl (KeyError (remdups (filter (\<lambda>k. k \<notin> set (map fst (cols scenario_A_literal)))
         [''SA4_NAME_2021'', name population, ''geometry''])))"
    by (rule process_data_missing [where G = "[VGeom G1, VNone]"])
       (simp_all add: scenario_A_literal_def population_def str_int_2021)
  then show ?thesis
    by (simp add: scenario_A_literal_def population_def)
qed

text \<open>
  Claim C3, amended: with the same two rows in a frame whose boundary names are in the
  column \<^verbatim>\<open>SA4_NAME_2021\<close>, \<^verbatim>\<open>process_data\<close> returns the table with the single row
  Brisbane, 2500000, \<open>G1\<close>, under the labels \<^verbatim>\<open>Location\<close>, \<^verbatim>\<open>Population\<close>, \<^verbatim>\<open>geometry\<close>.
\<close>

theorem scenario_A_result:
  "process_data scenario_A population 2021 ''SA4'' =
     Inr \<lparr>index = [0],
          cols = [(''Location'', [VStr ''Brisbane'']), (''Population'', [VInt 2500000]),
                  (''geometry'', [VGeom G1])]\<rparr>"
proof -
  have "process_data scenario_A population 2021 ''SA4'' =
         (case cast_column ''str'' (take_mask (ne_None [VGeom G1, VNone]) [VStr ''Brisbane'', VStr ''Cairns'']) of
            Inl e \<Rightarrow> Inl e
          | Inr L' \<Rightarrow>
              (case cast_column (type population) (take_mask (ne_None [VGeom G1, VNone]) [VStr ''2500000'', VStr ''150000'']) of
                 Inl e \<Rightarrow> Inl e
               | Inr V' \<Rightarrow>
                   (case cast_column ''geometry'' (take_mask (ne_None [VGeom G1, VNone]) [VGeom G1, VNone]) of
                      Inl e \<Rightarrow> Inl e
                    | Inr G' \<Rightarrow>
                        Inr \<lparr>index = [0..<length (take_mask (ne_None [VGeom G1, VNone]) (index scenario_A))],
                             cols = [(''Location'', L'), (rename population, V'), (''geometry'', G')]\<rparr>)))"
    by (rule process_data_normal [where loc = "''SA4_NAME_2021''"])
       (simp_all add: scenario_A_def population_def str_int_2021)
  then show ?thesis
    by (simp add: scenario_A_def population_def take_mask_def ne_None_def cast_column_def
          cast_int_2500000 cast_cell_str cast_geometry_VGeom py_str_def)
qed

text \<open>
  Claim C4. When the frame lacks the boundary-name column, the column the specification of
  the value column names, or the geometry column, the whole call ends in \<^verbatim>\<open>KeyError\<close>; the
  error carries labels, at least one, each of them one of the three that is not in the
  frame. So the call returns no table: neither one without the column nor one without
  some rows.
\<close>

theorem process_data_missing_column:
  assumes wf: "wf_gdf g"
    and miss: "\<not> set [t @ ''_NAME_'' @ str_int y, name c, ''geometry''] \<subseteq> set (map fst (cols g))"
  shows "\<exists>ms. process_data g c y t = Inl (KeyError ms)
     \<and> ms \<noteq> []
     \<and> set ms \<subseteq> set [t @ ''_NAME_'' @ str_int y, name c, ''geometry''] - set (map fst (cols g))"
proof (cases "map_of (cols g) ''geometry''")
  case None
  then have "process_data g c y t = Inl (KeyError [''geometry''])"
    by (rule process_data_no_geometry)
  moreover from None have "''geometry'' \<notin> set (map fst (cols g))"
    by (simp add: map_of_eq_None_iff)
  ultimately show ?thesis
    by auto
next
  case (Some G)
  let ?ms = "filter (\<lambda>k. k \<notin> set (map fst (cols g))) [t @ ''_NAME_'' @ str_int y, name c, ''geometry'']"
  have ne: "?ms \<noteq> []"
    using miss by (auto simp: filter_empty_conv)
  have "process_data g c y t = Inl (KeyError (remdups ?ms))"
    by (rule process_data_missing [OF Some refl ne])
  moreover have "remdups ?ms \<noteq> []"
    using ne by (simp only: remdups_eq_nil_iff not_False_eq_True)
  moreover have "set (remdups ?ms)
      \<subseteq> set [t @ ''_NAME_'' @ str_int y, name c, ''geometry''] - set (map fst (cols g))"
    by (auto split: if_splits)
  ultimately show ?thesis
    by blast
qed

text \<open>
  The theorem at the frame of Scenario A and a specification that names the column
  \<^verbatim>\<open>income\<close>, which the frame does not have.
\<close>

theorem process_data_missing_column_witness:
  "wf_gdf scenario_A
   \<and> \<not> set [''SA4'' @ ''_NAME_'' @ str_int 2021, name income, ''geometry'']
         \<subseteq> set (map fst (cols scenario_A))
   \<and> (\<exists>ms. process_data scenario_A income 2021 ''SA4'' = Inl (KeyError ms)
         \<and> ms \<noteq> []
         \<and> set ms \<subseteq> set [''SA4'' @ ''_NAME_'' @ str_int 2021, name income, ''geometry'']
                     - set (map fst (cols scenario_A)))
   \<and> process_data scenario_A income 2021 ''SA4'' = Inl (KeyError [''income''])"
proof -
  have miss: "\<not> set [''SA4'' @ ''_NAME_'' @ str_int 2021, name income, ''geometry'']
         \<subseteq> set (map fst (cols scenario_A))"
    by (simp add: income_def scenario_A_def)
  note c = process_data_missing_column [OF wf_scenario_A miss]
  have "process_data scenario_A income 2021 ''SA4'' =
      Inl (KeyError (remdups (filter (\<lambda>k. k \<notin> set (map fst (cols scenario_A)))
         [''SA4_NAME_2021'', name income, ''geometry''])))"
    by (rule process_data_missing [where G = "[VGeom G1, VNone]"])
       (simp_all add: scenario_A_def income_def str_int_2021)
  then have run: "process_data scenario_A income 2021 ''SA4'' = Inl (KeyError [''income''])"
    by (simp add: scenario_A_def income_def)
  show ?thesis
    by (intro conjI wf_scenario_A miss c run)
qed




section \<open>Theorems on the artifact paths\<close>



text \<open>
  Claim C10. Whatever its four arguments, \<^verbatim>\<open>load_pro\<close> raises \<^verbatim>\<open>NameError\<close> for the name
  \<^verbatim>\<open>gdf\<close>, which nothing in its scope binds; it returns no value at all, so no dataframe.
\<close>

theorem load_pro_always_fails:
  "load_pro work_dir data_config cloud overwrite = Inl (NameError ''gdf'')
   \<and> (\<forall>v. load_pro work_dir data_config cloud overwrite \<noteq> Inr v)"
  by (simp add: load_pro_def module_globals_def)

section \<open>Theorems on the encodings\<close>



text \<open>
  Claim C9, as stated: a file type other than \<^verbatim>\<open>json\<close> and \<^verbatim>\<open>html\<close> raises an error. With
  \<^verbatim>\<open>png\<close> on an empty file system \<^verbatim>\<open>save_figure\<close> returns normally and the file system is
  still empty.
\<close>

theorem save_figure_png_counterexample:
  "save_figure store_write_html store_write_json ''/work'' ''fig'' ''png''
     2021 ''G01'' ''AUST'' ''GDA2020'' ''SA4'' [] = Inr ([] :: string store)"
  by (simp add: save_figure_def)

text \<open>
  Claim C9, amended: for every file type other than \<^verbatim>\<open>html\<close> and \<^verbatim>\<open>json\<close>, \<^verbatim>\<open>save_figure\<close>
  calls neither writer, leaves the file system as it was and returns \<^verbatim>\<open>None\<close>; no error
  is raised.
\<close>

theorem save_figure_other_type:
  "file_type \<noteq> ''html'' \<Longrightarrow> file_type \<noteq> ''json'' \<Longrightarrow>
   save_figure wh wj work_dir fig file_type year topic area spec btype fs = Inr fs"
  by (simp add: save_figure_def)

text \<open>The theorem at the file type \<^verbatim>\<open>pdf\<close>, on a file system that holds one document.\<close>

theorem save_figure_other_type_witness:
  "''pdf'' \<noteq> ''html'' \<and> ''pdf'' \<noteq> ''json'' \<and>
   save_figure store_write_html store_write_json ''/w'' ''fig'' ''pdf'' 2016 ''G40'' ''QLD''
     ''GDA94'' ''LGA'' [(''/w/figure/old.json'', JsonDoc ''old'')]
   = Inr [(''/w/figure/old.json'', JsonDoc ''old'')]"
  using save_figure_other_type [of "''pdf''" store_write_html store_write_json "''/w''"
      "''fig''" 2016 "''G40''" "''QLD''" "''GDA94''" "''LGA''"
      "[(''/w/figure/old.json'', JsonDoc ''old'')]"]
  by simp

end
